theory Spec2Isabelle
  imports Complex_Main "HOL-Library.Multiset" "HOL-Library.Sublist" "HOL-Library.AList"
begin

section \<open>Strings as the scorer uses them\<close>

text \<open>
  A JavaScript string is modelled as a \<^typ>\<open>string\<close> whose characters are code units
  below 256 (Latin-1).  Numbers are IEEE doubles in the source and exact reals here,
  except in the ranking diagnostic, whose arithmetic is the platform's.
\<close>

definition isSpace :: "char \<Rightarrow> bool" where
  \<comment> \<open>the class \<open>\s\<close>, which is also what \<open>trim\<close> strips\<close>
  "isSpace c \<longleftrightarrow> (of_char c :: nat) \<in> {9, 10, 11, 12, 13, 32, 160}"

definition isDigit :: "char \<Rightarrow> bool" where
  \<comment> \<open>the class \<open>\d\<close>\<close>
  "isDigit c \<longleftrightarrow> 48 \<le> (of_char c :: nat) \<and> (of_char c :: nat) \<le> 57"

definition isWordChar :: "char \<Rightarrow> bool" where
  \<comment> \<open>the class \<open>\w\<close>: letters, digits and the underscore\<close>
  "isWordChar c \<longleftrightarrow>
     (let n = (of_char c :: nat)
      in (65 \<le> n \<and> n \<le> 90) \<or> (97 \<le> n \<and> n \<le> 122) \<or> (48 \<le> n \<and> n \<le> 57) \<or> n = 95)"

definition lowerChar :: "char \<Rightarrow> char" where
  "lowerChar c =
     (let n = (of_char c :: nat)
      in if (65 \<le> n \<and> n \<le> 90) \<or> (192 \<le> n \<and> n \<le> 222 \<and> n \<noteq> 215)
         then char_of (n + 32) else c)"

definition toLowerCase :: "string \<Rightarrow> string" where
  "toLowerCase s = map lowerChar s"

definition trim :: "string \<Rightarrow> string" where
  "trim s = rev (dropWhile isSpace (rev (dropWhile isSpace s)))"

definition startsWith :: "string \<Rightarrow> string \<Rightarrow> bool" where
  "startsWith s t \<longleftrightarrow> prefix t s"

fun includesStr :: "string \<Rightarrow> string \<Rightarrow> bool" where
  "includesStr [] t = (t = [])"
| "includesStr (c # cs) t = (prefix t (c # cs) \<or> includesStr cs t)"

fun join :: "string \<Rightarrow> string list \<Rightarrow> string" where
  "join sep [] = []"
| "join sep [x] = x"
| "join sep (x # y # ys) = x @ sep @ join sep (y # ys)"

text \<open>
  \<open>s.split(/\s+/)\<close>: the pieces between maximal runs of white space; a run at either
  end leaves an empty piece there.  The flag says that the previous character was white
  space, the second argument holds the current piece reversed.
\<close>

fun splitRuns :: "bool \<Rightarrow> string \<Rightarrow> string \<Rightarrow> string list" where
  "splitRuns inRun cur [] = [rev cur]"
| "splitRuns inRun cur (c # cs) =
     (if isSpace c
      then (if inRun then splitRuns True [] cs else rev cur # splitRuns True [] cs)
      else splitRuns False (c # cur) cs)"

definition splitWhitespace :: "string \<Rightarrow> string list" where
  "splitWhitespace s = splitRuns False [] s"

text \<open>\<open>s.replace(/\s+/g, ' ')\<close>: every maximal run of white space becomes one blank.\<close>

fun collapseRuns :: "bool \<Rightarrow> string \<Rightarrow> string" where
  "collapseRuns inRun [] = []"
| "collapseRuns inRun (c # cs) =
     (if isSpace c
      then (if inRun then collapseRuns True cs else CHR '' '' # collapseRuns True cs)
      else c # collapseRuns False cs)"

text \<open>\<open>n.toString()\<close> of an integer, and \<open>/^\d+$/.test(term)\<close>.\<close>

fun digitsOf :: "nat \<Rightarrow> string" where
  "digitsOf n =
     (if n < 10 then [char_of (48 + n)]
      else digitsOf (n div 10) @ [char_of (48 + n mod 10)])"

declare digitsOf.simps [simp del]

definition numberToString :: "int \<Rightarrow> string" where
  "numberToString i = (if i < 0 then CHR ''-'' # digitsOf (nat (- i)) else digitsOf (nat i))"

definition isNumericTerm :: "string \<Rightarrow> bool" where
  "isNumericTerm t \<longleftrightarrow> t \<noteq> [] \<and> list_all isDigit t"

text \<open>
  Fenced code blocks, \<open>body.match(/```[\s\S]*?```/g)\<close>: \<open>splitAtFence\<close> cuts a string at
  its first fence; a block runs from one fence to the next one after it, and the scan
  goes on behind the closing fence.
\<close>

fun splitAtFence :: "string \<Rightarrow> (string \<times> string) option" where
  "splitAtFence [] = None"
| "splitAtFence (c # cs) =
     (if prefix ''```'' (c # cs) then Some ([], drop 3 (c # cs))
      else (case splitAtFence cs of
              None \<Rightarrow> None
            | Some (before, after) \<Rightarrow> Some (c # before, after)))"

lemma splitAtFence_shorter:
  "splitAtFence s = Some (b, a) \<Longrightarrow> length a < length s"
  by (induction s arbitrary: b a) (auto split: if_splits option.splits)

function codeBlocks :: "string \<Rightarrow> string list" where
  "codeBlocks s =
     (case splitAtFence s of
        None \<Rightarrow> []
      | Some (before, rest) \<Rightarrow>
          (case splitAtFence rest of
             None \<Rightarrow> []
           | Some (inner, rest') \<Rightarrow> (''```'' @ inner @ ''```'') # codeBlocks rest'))"
  by pat_completeness auto
termination
proof (relation "measure length", goal_cases)
  case 1
  show ?case by simp
next
  case (2 s x2 before rest y2 inner rest')
  then have "length rest' < length rest" "length rest < length s"
    by (auto dest: splitAtFence_shorter)
  then show ?case by simp
qed

declare codeBlocks.simps [simp del]

section \<open>Data model\<close>

datatype Label = LabelText string | LabelObject "string option"

record GitHubIssue =
  issue_id :: int
  number :: int
  title :: string
  body :: "string option"
  labels :: "Label list option"

record FuzzyMatch =
  original :: string
  matched :: string
  fm_score :: real

record MatchDetails =
  titleMatches :: "string list"
  bodyMatches :: "string list"
  labelMatches :: "string list"
  numberMatch :: bool
  similarityScore :: real
  fuzzyMatches :: "FuzzyMatch list"

record SearchResult =
  visible :: bool
  score :: real
  matchDetails :: MatchDetails

record SearchWeights =
  w_title :: real
  w_body :: real
  w_fuzzy :: real
  w_meta :: real
  w_vector :: real

record SearchConfig =
  fuzzySearchThreshold :: real
  exactMatchBonus :: real
  fuzzyMatchWeight :: real

datatype error = SyntaxError | EncoderNotInitialized | DocumentNotFound | TypeError


section \<open>Signal scorer\<close>

text \<open>
  The scorer holds the configuration.  Two capabilities come from outside the sources at
  hand and are parameters: the similarity metric \<open>StringSimilarity.calculate\<close>, and the
  platform's regular expressions.  \<open>regExp p\<close> is \<open>new RegExp(p, 'gi')\<close>: \<open>None\<close> when the
  constructor throws a syntax error for the pattern \<open>p\<close>, otherwise the function that
  gives, for a subject string, the number of matches \<open>subject.match(re)\<close> finds.
\<close>

record SearchScorer =
  config :: SearchConfig
  stringSimilarity :: "string \<Rightarrow> string \<Rightarrow> real"
  regExp :: "string \<Rightarrow> (string \<Rightarrow> nat) option"

text \<open>Each scorer takes the evidence accumulator and returns it updated beside the score.\<close>

definition titleTerm ::
  "SearchConfig \<Rightarrow> string \<Rightarrow> string \<Rightarrow> real \<times> MatchDetails \<Rightarrow> real \<times> MatchDetails" where
  "titleTerm cfg ttl term = (\<lambda>(sc, md).
     if includesStr ttl term
     then (sc + exactMatchBonus cfg + (if startsWith ttl term then 0.5 else 0),
           md\<lparr>titleMatches := titleMatches md @ [term]\<rparr>)
     else (sc, md))"

definition calculateTitleScore ::
  "SearchScorer \<Rightarrow> GitHubIssue \<Rightarrow> string list \<Rightarrow> MatchDetails \<Rightarrow> real \<times> MatchDetails" where
  "calculateTitleScore scorer issue searchTerms md =
     (let ttl = toLowerCase (title issue);
          (sc, md') = fold (titleTerm (config scorer) ttl) searchTerms (0, md);
          sc' = (if length searchTerms > 1 \<and> includesStr ttl (join '' '' searchTerms)
                 then sc + 1 else sc)
      in (min sc' 3, md'))"

definition codeBlockBonus :: "string list \<Rightarrow> string \<Rightarrow> real \<Rightarrow> real" where
  "codeBlockBonus blocks term sc =
     fold (\<lambda>block s. if includesStr (toLowerCase block) term then s + 0.5 else s) blocks sc"

fun bodyTerms ::
  "(string \<Rightarrow> (string \<Rightarrow> nat) option) \<Rightarrow> string \<Rightarrow> string list \<Rightarrow> real \<times> MatchDetails
     \<Rightarrow> error + real \<times> MatchDetails" where
  "bodyTerms re bdy [] acc = Inr acc"
| "bodyTerms re bdy (term # terms) (sc, md) =
     (case re term of
        None \<Rightarrow> Inl SyntaxError
      | Some countMatches \<Rightarrow>
          (let n = countMatches bdy;
               (sc1, md1) = (if n > 0
                             then (sc + min (real n / 2) 1, md\<lparr>bodyMatches := bodyMatches md @ [term]\<rparr>)
                             else (sc, md));
               sc2 = codeBlockBonus (codeBlocks bdy) term sc1
           in bodyTerms re bdy terms (sc2, md1)))"

definition calculateBodyScore ::
  "SearchScorer \<Rightarrow> GitHubIssue \<Rightarrow> string list \<Rightarrow> MatchDetails \<Rightarrow> error + real \<times> MatchDetails" where
  "calculateBodyScore scorer issue searchTerms md =
     (let bdy = toLowerCase (case body issue of None \<Rightarrow> [] | Some b \<Rightarrow> b)
      in case bodyTerms (regExp scorer) bdy searchTerms (0, md) of
           Inl e \<Rightarrow> Inl e
         | Inr (sc, md') \<Rightarrow> Inr (min sc 2, md'))"

definition labelHit :: "string \<Rightarrow> Label \<Rightarrow> real \<times> MatchDetails \<Rightarrow> real \<times> MatchDetails" where
  "labelHit term label = (\<lambda>(sc, md).
     (case label of
        LabelObject (Some nm) \<Rightarrow>
          if nm \<noteq> [] \<and> includesStr (toLowerCase nm) term
          then (sc + 0.5, md\<lparr>labelMatches := labelMatches md @ [nm]\<rparr>)
          else (sc, md)
      | _ \<Rightarrow> (sc, md)))"

definition calculateMetaScore ::
  "SearchScorer \<Rightarrow> GitHubIssue \<Rightarrow> string list \<Rightarrow> MatchDetails \<Rightarrow> real \<times> MatchDetails" where
  "calculateMetaScore scorer issue searchTerms md =
     (let numberTerm = find isNumericTerm searchTerms;
          (sc, md1) = (case numberTerm of
                         Some t \<Rightarrow> if numberToString (number issue) = t
                                   then (2, md\<lparr>numberMatch := True\<rparr>) else (0, md)
                       | None \<Rightarrow> (0, md))
      in case labels issue of
           None \<Rightarrow> (sc, md1)
         | Some ls \<Rightarrow> fold (\<lambda>term. fold (labelHit term) ls) searchTerms (sc, md1))"

definition tokenizeContent :: "string \<Rightarrow> string list" where
  "tokenizeContent content =
     filter (\<lambda>word. length word > 2)
       (splitWhitespace
          (map (\<lambda>c. if isWordChar c \<or> isSpace c then c else CHR '' '') (toLowerCase content)))"

definition bestMatchStep ::
  "SearchScorer \<Rightarrow> string \<Rightarrow> string \<Rightarrow> string \<times> real \<Rightarrow> string \<times> real" where
  "bestMatchStep scorer searchTerm word = (\<lambda>(bw, bs).
     (let similarity = stringSimilarity scorer searchTerm word
      in if similarity > fuzzySearchThreshold (config scorer) \<and> similarity > bs
         then (word, similarity) else (bw, bs)))"

definition bestMatch :: "SearchScorer \<Rightarrow> string list \<Rightarrow> string \<Rightarrow> string \<times> real" where
  "bestMatch scorer contentWords searchTerm =
     fold (bestMatchStep scorer searchTerm) contentWords ([], 0)"

definition fuzzyTerm ::
  "SearchScorer \<Rightarrow> string list \<Rightarrow> string \<Rightarrow> real \<times> MatchDetails \<Rightarrow> real \<times> MatchDetails" where
  "fuzzyTerm scorer contentWords searchTerm = (\<lambda>(sc, md).
     (let (bw, bs) = bestMatch scorer contentWords searchTerm
      in if bs > 0
         then (sc + bs * fuzzyMatchWeight (config scorer),
               md\<lparr>fuzzyMatches := fuzzyMatches md
                     @ [\<lparr>original = searchTerm, matched = bw, fm_score = bs\<rparr>]\<rparr>)
         else (sc, md)))"

definition calculateFuzzyScore ::
  "SearchScorer \<Rightarrow> string \<Rightarrow> string list \<Rightarrow> MatchDetails \<Rightarrow> real \<times> MatchDetails" where
  "calculateFuzzyScore scorer content searchTerms md =
     (let contentWords = tokenizeContent content;
          (sc, md') = fold (fuzzyTerm scorer contentWords) searchTerms (0, md)
      in (min sc 2, md'))"


section \<open>Embedding index\<close>

text \<open>
  The store is a JavaScript \<open>Map\<close>: an association list in insertion order, written with
  \<^const>\<open>AList.update\<close>, which replaces the value of a key already present in place
  and appends a new key at the end.  The encoder is the external model; \<open>None\<close> is the
  state before its asynchronous initialisation has finished.  Applied to a text, it
  stands for \<open>encoder(text, {pooling: 'mean', normalize: true}).data[0]\<close>.
\<close>

record VectorSearch =
  documentVectors :: "(int \<times> real list) list"
  encoder :: "(string \<Rightarrow> real list) option"

definition preprocessText :: "string \<Rightarrow> string" where
  "preprocessText text = trim (collapseRuns False (toLowerCase text))"

definition hasDocument :: "VectorSearch \<Rightarrow> int \<Rightarrow> bool" where
  "hasDocument vs documentId \<longleftrightarrow> map_of (documentVectors vs) documentId \<noteq> None"

definition sumSquares :: "real list \<Rightarrow> real" where
  "sumSquares v = fold (\<lambda>x acc. acc + x * x) v 0"

definition dotProduct :: "real list \<Rightarrow> real list \<Rightarrow> real" where
  "dotProduct a b = fold (\<lambda>(x, y) acc. acc + x * y) (zip a b) 0"

text \<open>
  The loop runs over the indices of \<open>vecA\<close>.  Reading \<open>vecB\<close> beyond its end gives
  \<open>undefined\<close>, the products are then \<open>NaN\<close>, and \<open>NaN || 0\<close> is 0; so is the quotient
  \<open>0 / 0\<close> when a norm vanishes.
\<close>

definition calculateCosineSimilarity :: "real list \<Rightarrow> real list \<Rightarrow> real" where
  "calculateCosineSimilarity vecA vecB =
     (if length vecB < length vecA then 0
      else
        (let vecB' = take (length vecA) vecB;
             normA = sqrt (sumSquares vecA);
             normB = sqrt (sumSquares vecB');
             similarity = (if normA * normB = 0 then 0
                           else dotProduct vecA vecB' / (normA * normB))
         in max 0 (min 1 similarity)))"

text \<open>
  The combined vector has the length of the first embedding.  An embedding shorter than
  that leaves \<open>NaN\<close> entries in it; the norm is then \<open>NaN\<close>, nothing is normalised, and the
  cosine similarity comes out as 0 by the rule above.
\<close>

definition combineEmbeddings :: "real list list \<Rightarrow> real list option" where
  "combineEmbeddings queryEmbeddings =
     (case queryEmbeddings of
        [] \<Rightarrow> None
      | first # _ \<Rightarrow>
          if \<exists>e \<in> set queryEmbeddings. length e < length first then None
          else Some (fold (\<lambda>embedding combined. map2 (+) combined embedding)
                       queryEmbeddings (replicate (length first) 0)))"

definition normalizeVector :: "real list \<Rightarrow> real list" where
  "normalizeVector v =
     (let norm = sqrt (sumSquares v)
      in if norm > 0 then map (\<lambda>x. x / norm) v else v)"

text \<open>
  The second component of the result lists the texts handed to the encoder, in order:
  it is empty exactly when the encoder was not invoked.  The source's check
  \<open>if (!queryTerms)\<close> comes after \<open>queryTerms.length\<close> has been read and can never
  fire; it has no branch here.
\<close>

definition getSimilarityScore ::
  "VectorSearch \<Rightarrow> int \<Rightarrow> string list \<Rightarrow> (error + real) \<times> string list" where
  "getSimilarityScore vs documentId queryTerms =
     (if \<not> hasDocument vs documentId \<or> queryTerms = [] then (Inr 0, [])
      else
        (case encoder vs of
           None \<Rightarrow> (Inl EncoderNotInitialized, [])
         | Some enc \<Rightarrow>
             (let texts = map preprocessText queryTerms;
                  queryEmbeddings = map enc texts
              in (case map_of (documentVectors vs) documentId of
                    None \<Rightarrow> Inl DocumentNotFound
                  | Some docVector \<Rightarrow>
                      (case combineEmbeddings queryEmbeddings of
                         None \<Rightarrow> Inr 0
                       | Some combinedVector \<Rightarrow>
                           Inr (calculateCosineSimilarity (normalizeVector combinedVector) docVector)),
                  texts))))"

text \<open>
  \<open>scores.sort((a, b) => b.score - a.score)\<close> is a stable sort by descending score;
  \<open>slice(0, topK)\<close> counts a negative bound from the end.  The bound is an argument
  here; a caller that omits it gets 5.
\<close>

definition sortByScoreDesc :: "(int \<times> real) list \<Rightarrow> (int \<times> real) list" where
  "sortByScoreDesc scores = sort_key (\<lambda>p. - snd p) scores"

definition sliceFromStart :: "'a list \<Rightarrow> int \<Rightarrow> 'a list" where
  "sliceFromStart xs n =
     (if n < 0 then take (nat (int (length xs) + n)) xs else take (nat n) xs)"

definition vectorSearch_search ::
  "VectorSearch \<Rightarrow> string \<Rightarrow> int \<Rightarrow> error + (int \<times> real) list" where
  "vectorSearch_search vs query topK =
     (case encoder vs of
        None \<Rightarrow> Inl EncoderNotInitialized
      | Some enc \<Rightarrow>
          (let queryVector = enc (preprocessText query);
               scores = map (\<lambda>(docId, docVector).
                               (docId, calculateCosineSimilarity queryVector docVector))
                          (documentVectors vs)
           in Inr (sliceFromStart (sortByScoreDesc scores) topK)))"

section \<open>Relevance engine\<close>

text \<open>
  The ranking diagnostic divides two sums of terms \<open>(Math.pow(2, score) - 1) /
  Math.log2(index + 2)\<close>.  Its value depends on how the platform rounds and on overflow,
  so its arithmetic is not done in the reals: a number of the diagnostic is a finite
  value, an infinity or \<open>NaN\<close>, and the five operations it uses are a parameter, the
  platform's arithmetic on doubles.  The scores it reads are finite doubles and are
  reals here, as everywhere else.
\<close>

datatype jsnum = Num real | PosInfinity | NegInfinity | NaN

record PlatformMath =
  math_pow :: "real \<Rightarrow> real \<Rightarrow> jsnum"
  math_log2 :: "real \<Rightarrow> jsnum"
  num_sub :: "jsnum \<Rightarrow> jsnum \<Rightarrow> jsnum"
  num_div :: "jsnum \<Rightarrow> jsnum \<Rightarrow> jsnum"
  num_add :: "jsnum \<Rightarrow> jsnum \<Rightarrow> jsnum"

text \<open>
  The engine; \<open>math\<close> is the arithmetic of the platform it runs on, which its ranking
  diagnostic uses.
\<close>

record IssueSearch =
  weights :: SearchWeights
  vectorSearch :: VectorSearch
  searchScorer :: SearchScorer
  getGitHubIssueById :: "int \<Rightarrow> GitHubIssue option"
  math :: PlatformMath

definition defaultWeights :: SearchWeights where
  "defaultWeights = \<lparr>w_title = 0.3, w_body = 0.2, w_fuzzy = 0.2, w_meta = 0.1, w_vector = 0.2\<rparr>"

definition defaultConfig :: SearchConfig where
  "defaultConfig = \<lparr>fuzzySearchThreshold = 0.7, exactMatchBonus = 1.0, fuzzyMatchWeight = 0.7\<rparr>"

definition emptyMatchDetails :: MatchDetails where
  "emptyMatchDetails =
     \<lparr>titleMatches = [], bodyMatches = [], labelMatches = [], numberMatch = False,
      similarityScore = 0, fuzzyMatches = []\<rparr>"

definition createEmptyResult :: "bool \<Rightarrow> SearchResult" where
  "createEmptyResult vis =
     \<lparr>visible = vis, score = (if vis then 1 else 0), matchDetails = emptyMatchDetails\<rparr>"

definition preprocessSearchTerms :: "string \<Rightarrow> string list" where
  "preprocessSearchTerms searchText =
     map toLowerCase (filter (\<lambda>t. t \<noteq> []) (splitWhitespace searchText))"

definition labelName :: "Label \<Rightarrow> string" where
  "labelName l = (case l of LabelObject (Some nm) \<Rightarrow> nm | _ \<Rightarrow> [])"

definition getSearchableContent :: "GitHubIssue \<Rightarrow> string" where
  "getSearchableContent issue =
     toLowerCase
       (title issue @ '' '' @ (case body issue of None \<Rightarrow> [] | Some b \<Rightarrow> b) @ '' '' @
        (case labels issue of None \<Rightarrow> [] | Some ls \<Rightarrow> join '' '' (map labelName ls)))"

text \<open>
  An exception inside the asynchronous \<open>_calculateIssueRelevance\<close> rejects its promise:
  the result is then an error and no search result exists.
\<close>

definition calculateIssueRelevance ::
  "IssueSearch \<Rightarrow> GitHubIssue \<Rightarrow> string list \<Rightarrow> error + SearchResult" where
  "calculateIssueRelevance eng issue searchTerms =
     (let searchableContent = getSearchableContent issue;
          (s_title, md1) = calculateTitleScore (searchScorer eng) issue searchTerms emptyMatchDetails
      in case calculateBodyScore (searchScorer eng) issue searchTerms md1 of
           Inl e \<Rightarrow> Inl e
         | Inr (s_body, md2) \<Rightarrow>
             (let (s_fuzzy, md3) = calculateFuzzyScore (searchScorer eng) searchableContent searchTerms md2;
                  (s_meta, md4) = calculateMetaScore (searchScorer eng) issue searchTerms md3
              in case fst (getSimilarityScore (vectorSearch eng) (issue_id issue) searchTerms) of
                   Inl e \<Rightarrow> Inl e
                 | Inr s_vector \<Rightarrow>
                     (let md5 = md4\<lparr>similarityScore := s_vector\<rparr>;
                          totalScore = 0 + s_title * w_title (weights eng)
                                         + s_body * w_body (weights eng)
                                         + s_fuzzy * w_fuzzy (weights eng)
                                         + s_meta * w_meta (weights eng)
                                         + s_vector * w_vector (weights eng);
                          isVisible = (totalScore > 0 \<or> numberMatch md5)
                      in Inr \<lparr>visible = isVisible,
                              score = (if isVisible then totalScore else 0),
                              matchDetails = md5\<rparr>)))"

text \<open>The ranking diagnostic over the values of the result map, in insertion order.\<close>

definition sortDescending :: "real list \<Rightarrow> real list" where
  "sortDescending xs = sort_key uminus xs"

definition dcg :: "PlatformMath \<Rightarrow> real list \<Rightarrow> jsnum" where
  "dcg pm scores =
     fold (\<lambda>(index, sc) sum.
             num_add pm sum
               (num_div pm (num_sub pm (math_pow pm 2 sc) (Num 1)) (math_log2 pm (real index + 2))))
       (enumerate 0 scores) (Num 0)"

definition calculateNDCGScore :: "PlatformMath \<Rightarrow> (int \<times> SearchResult) list \<Rightarrow> jsnum" where
  "calculateNDCGScore pm results =
     (let scores = sortDescending (map score (filter visible (map snd results)))
      in if length scores = 0 then Num 0
         else (let idcg = dcg pm (sortDescending scores)
               in if idcg = Num 0 then Num 0 else num_div pm (dcg pm scores) idcg))"

text \<open>
  \<open>search\<close> starts one asynchronous task per requested id and returns without awaiting
  any of them.  A task for an id the task manager does not know writes its entry before
  its first suspension, so that entry is in the map at return.  A task for a known issue
  runs the scorers and is suspended at its \<open>await\<close>; it writes its entry, if its
  computation did not fail, only when it is resumed after \<open>search\<close> has returned.  The
  model returns the map as it is at return together with the suspended tasks, each with
  the id and the outcome it will deliver.
\<close>

type_synonym results = "(int \<times> SearchResult) list"
type_synonym task = "int \<times> (error + SearchResult)"

definition startTask :: "IssueSearch \<Rightarrow> string list \<Rightarrow> int \<Rightarrow> results \<times> task list \<Rightarrow> results \<times> task list" where
  "startTask eng searchTerms issueId = (\<lambda>(res, pending).
     (case getGitHubIssueById eng issueId of
        None \<Rightarrow> (AList.update issueId (createEmptyResult False) res, pending)
      | Some issue \<Rightarrow> (res, pending @ [(issueId, calculateIssueRelevance eng issue searchTerms)])))"

definition search :: "IssueSearch \<Rightarrow> string \<Rightarrow> int list \<Rightarrow> results \<times> task list" where
  "search eng searchText issueIds =
     (let filterText = trim (toLowerCase searchText)
      in if filterText = []
         then (fold (\<lambda>i res. AList.update i (createEmptyResult True) res) issueIds [], [])
         else
           (let searchTerms = preprocessSearchTerms filterText;
                (res, pending) = fold (startTask eng searchTerms) issueIds ([], []);
                ndcg = calculateNDCGScore (math eng) res
            in (res, pending)))"

text \<open>Resuming a suspended task; the tasks may be resumed in any order.\<close>

definition settle :: "task \<Rightarrow> results \<Rightarrow> results" where
  "settle t res = (case snd t of Inl e \<Rightarrow> res | Inr r \<Rightarrow> AList.update (fst t) r res)"

definition settleAll :: "task list \<Rightarrow> results \<Rightarrow> results" where
  "settleAll schedule res = fold settle schedule res"


section \<open>Example instances\<close>

text \<open>
  Values for the two outside capabilities, used where a statement is evaluated on a
  concrete input.  \<open>exampleRegExp\<close> agrees with the platform on the patterns it is used
  at: a pattern of word characters only matches itself, and the matches counted are the
  occurrences found from left to right without overlap; the pattern \<open>(\<close> is rejected
  as a syntax error (an unterminated group).  \<open>exampleSimilarity\<close> is a metric with values
  in the unit interval that hits the default threshold 0.7 exactly on distinct words of
  equal length.
\<close>

fun countFrom :: "string \<Rightarrow> nat \<Rightarrow> string \<Rightarrow> nat" where
  "countFrom p skip [] = 0"
| "countFrom p skip (c # cs) =
     (if skip = 0 \<and> prefix p (c # cs) then 1 + countFrom p (length p - 1) cs
      else countFrom p (skip - 1) cs)"

definition exampleRegExp :: "string \<Rightarrow> (string \<Rightarrow> nat) option" where
  "exampleRegExp p =
     (if p \<noteq> [] \<and> list_all isWordChar p
      then Some (\<lambda>subject. countFrom (toLowerCase p) 0 (toLowerCase subject))
      else None)"

definition exampleSimilarity :: "string \<Rightarrow> string \<Rightarrow> real" where
  "exampleSimilarity a b = (if a = b then 1 else if length a = length b then 0.7 else 0)"

definition exampleScorer :: SearchScorer where
  "exampleScorer =
     \<lparr>config = defaultConfig, stringSimilarity = exampleSimilarity, regExp = exampleRegExp\<rparr>"

definition exampleIssue :: GitHubIssue where
  "exampleIssue =
     \<lparr>issue_id = 1, number = 42, title = ''Login fails on Safari'', body = None,
      labels = Some [LabelObject (Some ''bug'')]\<rparr>"

definition secondIssue :: GitHubIssue where
  "secondIssue =
     \<lparr>issue_id = 2, number = 7, title = ''Add dark mode toggle'',
      body = Some ''Please add ```toggle()``` to the settings'',
      labels = Some [LabelText ''ui'', LabelObject (Some ''Feature'')]\<rparr>"

definition numberedIssue :: GitHubIssue where
  "numberedIssue =
     \<lparr>issue_id = 3, number = 42, title = ''Crash report'', body = None, labels = None\<rparr>"

definition exampleVectors :: VectorSearch where
  "exampleVectors =
     \<lparr>documentVectors = AList.update 1 [1, 0] (AList.update 2 [1, 0] []),
      encoder = Some (\<lambda>text. if text = ''zzz'' then [0, 1] else [1, 0])\<rparr>"

text \<open>
  An arithmetic for the examples.  It follows the rules of doubles for infinities and
  \<open>NaN\<close>, without signed zeros, and computes finite values exactly.  Doubles round; the
  examples use it only where the result of the platform is the exact one (\<open>2\<close> to the
  power 1 is 2, \<open>log2(2)\<close> is 1), and at the two places where \<open>Math.pow\<close> leaves the
  reals behind: \<open>Math.pow(2, e)\<close> is \<open>Infinity\<close> from \<open>e = 1024\<close> on, and it is exactly 1
  for \<open>0 \<le> e < 2\<^sup>-\<^sup>5\<^sup>4\<close>, where the true value is nearer to 1 than to the next double.
\<close>

fun jsNeg :: "jsnum \<Rightarrow> jsnum" where
  "jsNeg (Num a) = Num (- a)"
| "jsNeg PosInfinity = NegInfinity"
| "jsNeg NegInfinity = PosInfinity"
| "jsNeg NaN = NaN"

fun jsAdd :: "jsnum \<Rightarrow> jsnum \<Rightarrow> jsnum" where
  "jsAdd NaN y = NaN"
| "jsAdd x NaN = NaN"
| "jsAdd PosInfinity NegInfinity = NaN"
| "jsAdd NegInfinity PosInfinity = NaN"
| "jsAdd PosInfinity y = PosInfinity"
| "jsAdd x PosInfinity = PosInfinity"
| "jsAdd NegInfinity y = NegInfinity"
| "jsAdd x NegInfinity = NegInfinity"
| "jsAdd (Num a) (Num b) = Num (a + b)"

definition jsSub :: "jsnum \<Rightarrow> jsnum \<Rightarrow> jsnum" where
  "jsSub x y = jsAdd x (jsNeg y)"

fun jsDiv :: "jsnum \<Rightarrow> jsnum \<Rightarrow> jsnum" where
  "jsDiv NaN y = NaN"
| "jsDiv x NaN = NaN"
| "jsDiv (Num a) (Num b) =
     (if b = 0 then (if a = 0 then NaN else if 0 < a then PosInfinity else NegInfinity)
      else Num (a / b))"
| "jsDiv (Num a) y = Num 0"
| "jsDiv PosInfinity (Num b) = (if b < 0 then NegInfinity else PosInfinity)"
| "jsDiv NegInfinity (Num b) = (if b < 0 then PosInfinity else NegInfinity)"
| "jsDiv x y = NaN"

definition exampleMath :: PlatformMath where
  "exampleMath =
     \<lparr>math_pow = (\<lambda>b e. if b = 2 \<and> 1024 \<le> e then PosInfinity
                        else if b = 2 \<and> 0 \<le> e \<and> e < 1 / 2 ^ 54 then Num 1
                        else Num (b powr e)),
      math_log2 = (\<lambda>x. Num (log 2 x)),
      num_sub = jsSub, num_div = jsDiv, num_add = jsAdd\<rparr>"

definition exampleEngine :: IssueSearch where
  "exampleEngine =
     \<lparr>weights = defaultWeights, vectorSearch = exampleVectors, searchScorer = exampleScorer,
      getGitHubIssueById =
        (\<lambda>i. if i = 1 then Some exampleIssue else if i = 2 then Some secondIssue
              else if i = 3 then Some numberedIssue else None),
      math = exampleMath\<rparr>"

text \<open>
  The outcome the suspended task of an id delivers; \<open>search\<close> starts such a task only
  for an id the task manager resolves.
\<close>

definition outcomeOf :: "IssueSearch \<Rightarrow> string list \<Rightarrow> int \<Rightarrow> error + SearchResult" where
  "outcomeOf eng searchTerms i =
     (case getGitHubIssueById eng i of
        None \<Rightarrow> Inl TypeError
      | Some issue \<Rightarrow> calculateIssueRelevance eng issue searchTerms)"


section \<open>Evaluating the examples\<close>

lemmas string_defs = trim_def toLowerCase_def isSpace_def lowerChar_def isWordChar_def isDigit_def
  splitWhitespace_def preprocessSearchTerms_def startsWith_def preprocessText_def

lemmas example_defs = exampleEngine_def exampleIssue_def exampleVectors_def exampleScorer_def
  exampleRegExp_def exampleSimilarity_def defaultConfig_def defaultWeights_def

lemma example_engine_parts:
  "searchScorer exampleEngine = exampleScorer"
  "vectorSearch exampleEngine = exampleVectors"
  "weights exampleEngine = defaultWeights"
  "getGitHubIssueById exampleEngine 7 = None"
  "getGitHubIssueById exampleEngine 1 = Some exampleIssue"
  "getGitHubIssueById exampleEngine 2 = Some secondIssue"
  "getGitHubIssueById exampleEngine 3 = Some numberedIssue"
  by (simp_all add: exampleEngine_def)

lemma zzz_terms: "preprocessSearchTerms (trim (toLowerCase ''zzz'')) = [''zzz'']"
  by code_simp

lemma zzz_title:
  "calculateTitleScore exampleScorer exampleIssue [''zzz''] emptyMatchDetails = (0, emptyMatchDetails)"
  by (simp add: calculateTitleScore_def titleTerm_def string_defs example_defs)

lemma zzz_body:
  "calculateBodyScore exampleScorer exampleIssue [''zzz''] emptyMatchDetails = Inr (0, emptyMatchDetails)"
  by (simp add: calculateBodyScore_def codeBlockBonus_def codeBlocks.simps string_defs example_defs)

lemma example_content:
  "tokenizeContent (getSearchableContent exampleIssue) = [''login'', ''fails'', ''safari'', ''bug'']"
  by code_simp

lemma zzz_fuzzy:
  "calculateFuzzyScore exampleScorer (getSearchableContent exampleIssue) [''zzz''] emptyMatchDetails
     = (0, emptyMatchDetails)"
  by (simp add: calculateFuzzyScore_def example_content fuzzyTerm_def bestMatch_def bestMatchStep_def
      exampleScorer_def exampleSimilarity_def defaultConfig_def)

lemma zzz_meta:
  "calculateMetaScore exampleScorer exampleIssue [''zzz''] emptyMatchDetails = (0, emptyMatchDetails)"
  by (simp add: calculateMetaScore_def labelHit_def isNumericTerm_def string_defs example_defs)

lemma zzz_vector: "getSimilarityScore exampleVectors 1 [''zzz''] = (Inr 0, [''zzz''])"
  by (simp add: getSimilarityScore_def hasDocument_def combineEmbeddings_def normalizeVector_def
      calculateCosineSimilarity_def sumSquares_def dotProduct_def string_defs example_defs)

lemma zzz_relevance:
  "calculateIssueRelevance exampleEngine exampleIssue [''zzz'']
     = Inr \<lparr>visible = False, score = 0, matchDetails = emptyMatchDetails\<rparr>"
proof -
  have i: "issue_id exampleIssue = 1" by (simp add: exampleIssue_def)
  show ?thesis
    by (simp add: calculateIssueRelevance_def example_engine_parts i zzz_title zzz_body zzz_fuzzy
          zzz_meta zzz_vector)
       (simp add: emptyMatchDetails_def)
qed

lemma zzz_search:
  "search exampleEngine ''zzz'' [7, 1] =
     ([(7, createEmptyResult False)],
      [(1, Inr \<lparr>visible = False, score = 0, matchDetails = emptyMatchDetails\<rparr>)])"
proof -
  have t: "trim (toLowerCase ''zzz'') = ''zzz''" by code_simp
  show ?thesis using zzz_terms
    by (simp add: search_def t startTask_def example_engine_parts zzz_relevance)
qed

section \<open>The result map\<close>

lemma map_of_fold_update_const:
  "map_of (fold (\<lambda>i res. AList.update i v res) ids res0) k =
     (if k \<in> set ids then Some v else map_of res0 k)"
  by (induction ids arbitrary: res0) (auto simp: update_conv')

lemma keys_fold_update_const:
  "fst ` set (fold (\<lambda>i res. AList.update i v res) ids res0) = set ids \<union> fst ` set res0"
  by (induction ids arbitrary: res0) (auto simp: dom_update)

lemma set_update_subset:
  "(i, r) \<in> set (AList.update k v al) \<Longrightarrow> (i, r) = (k, v) \<or> (i, r) \<in> set al"
  by (induction al) (auto split: if_splits)

text \<open>
  C3.  When the query is empty after lower-casing and trimming, \<open>search\<close> leaves no task
  behind and returns a map whose keys are exactly the requested ids, each with the
  browse-state result: visible, score 1, empty match evidence.
\<close>

theorem search_empty_query:
  assumes "trim (toLowerCase searchText) = []"
  shows "snd (search eng searchText issueIds) = []
       \<and> fst ` set (fst (search eng searchText issueIds)) = set issueIds
       \<and> (\<forall>i \<in> set issueIds. map_of (fst (search eng searchText issueIds)) i
             = Some \<lparr>visible = True, score = 1, matchDetails = emptyMatchDetails\<rparr>)"
  using assms
  by (simp add: search_def map_of_fold_update_const keys_fold_update_const createEmptyResult_def)

theorem search_empty_query_witness:
  "snd (search exampleEngine ''  '' [3, 1, 3]) = []
   \<and> fst ` set (fst (search exampleEngine ''  '' [3, 1, 3])) = {1, 3}
   \<and> map_of (fst (search exampleEngine ''  '' [3, 1, 3])) 3
        = Some \<lparr>visible = True, score = 1, matchDetails = emptyMatchDetails\<rparr>
   \<and> map_of (fst (search exampleEngine ''  '' [3, 1, 3])) 1
        = Some \<lparr>visible = True, score = 1, matchDetails = emptyMatchDetails\<rparr>"
proof -
  have h: "trim (toLowerCase ''  '') = []"
    by (simp add: trim_def toLowerCase_def isSpace_def lowerChar_def)
  from search_empty_query[OF h, of exampleEngine "[3, 1, 3]"] show ?thesis by auto
qed

subsection \<open>An invariant of every entry\<close>

lemma relevance_invisible_zero:
  "calculateIssueRelevance eng issue terms = Inr r \<Longrightarrow> \<not> visible r \<Longrightarrow> score r = 0"
  by (auto simp: calculateIssueRelevance_def Let_def split: prod.splits sum.splits)

lemma startTask_inv:
  assumes "P (createEmptyResult False)"
    and "\<And>issue r. calculateIssueRelevance eng issue terms = Inr r \<Longrightarrow> P r"
    and "\<forall>(i, r) \<in> set res. P r"
    and "\<forall>(i, t) \<in> set pend. \<forall>r. t = Inr r \<longrightarrow> P r"
  shows "(\<forall>(i, r) \<in> set (fst (startTask eng terms a (res, pend))). P r)
       \<and> (\<forall>(i, t) \<in> set (snd (startTask eng terms a (res, pend))). \<forall>r. t = Inr r \<longrightarrow> P r)"
proof (cases "getGitHubIssueById eng a")
  case None
  then show ?thesis using assms(1,3,4)
    by (auto simp: startTask_def dest: set_update_subset)
next
  case (Some issue)
  then show ?thesis using assms(2,3,4)
    by (auto simp: startTask_def)
qed

lemma startTask_fold_inv:
  assumes "P (createEmptyResult False)"
    and "\<And>issue r. calculateIssueRelevance eng issue terms = Inr r \<Longrightarrow> P r"
  shows "(\<forall>(i, r) \<in> set (fst st). P r) \<Longrightarrow>
         (\<forall>(i, t) \<in> set (snd st). \<forall>r. t = Inr r \<longrightarrow> P r) \<Longrightarrow>
         (\<forall>(i, r) \<in> set (fst (fold (startTask eng terms) ids st)). P r)
       \<and> (\<forall>(i, t) \<in> set (snd (fold (startTask eng terms) ids st)). \<forall>r. t = Inr r \<longrightarrow> P r)"
proof (induction ids arbitrary: st)
  case Nil
  then show ?case by simp
next
  case (Cons a ids)
  obtain res pend where st: "st = (res, pend)" by (cases st)
  have step: "(\<forall>(i, r) \<in> set (fst (startTask eng terms a st)). P r)
       \<and> (\<forall>(i, t) \<in> set (snd (startTask eng terms a st)). \<forall>r. t = Inr r \<longrightarrow> P r)"
    unfolding st by (rule startTask_inv[where P=P, OF assms]) (use Cons.prems st in auto)
  show ?case using Cons.IH[of "startTask eng terms a st"] step by simp
qed

lemma fold_update_inv:
  assumes "P v"
  shows "(\<forall>(i, r) \<in> set res0. P r) \<Longrightarrow>
         \<forall>(i, r) \<in> set (fold (\<lambda>i res. AList.update i v res) ids res0). P r"
proof (induction ids arbitrary: res0)
  case Nil
  then show ?case by simp
next
  case (Cons a ids)
  have "\<forall>(i, r) \<in> set (AList.update a v res0). P r"
    using Cons.prems assms by (auto dest: set_update_subset)
  from Cons.IH[OF this] show ?case by simp
qed

lemma settleAll_inv:
  assumes "\<forall>(i, r) \<in> set res. P r" "\<forall>(i, t) \<in> set sched. \<forall>r. t = Inr r \<longrightarrow> P r"
  shows "\<forall>(i, r) \<in> set (settleAll sched res). P r"
  using assms unfolding settleAll_def
proof (induction sched arbitrary: res)
  case Nil
  then show ?case by simp
next
  case (Cons t sched)
  have "\<forall>(i, r) \<in> set (settle t res). P r"
    using Cons.prems by (cases t) (auto simp: settle_def split: sum.splits dest: set_update_subset)
  then show ?case using Cons by simp
qed

lemma search_inv:
  assumes "P (createEmptyResult False)" "P (createEmptyResult True)"
    "\<And>issue terms r. calculateIssueRelevance eng issue terms = Inr r \<Longrightarrow> P r"
  shows "(\<forall>(i, r) \<in> set (fst (search eng q ids)). P r)
       \<and> (\<forall>(i, t) \<in> set (snd (search eng q ids)). \<forall>r. t = Inr r \<longrightarrow> P r)"
proof (cases "trim (toLowerCase q) = []")
  case True
  have "\<forall>(i, r) \<in> set (fold (\<lambda>i res. AList.update i (createEmptyResult True) res) ids []). P r"
    by (rule fold_update_inv[where P=P, OF assms(2)]) simp
  with True show ?thesis by (simp add: search_def)
next
  case False
  let ?terms = "preprocessSearchTerms (trim (toLowerCase q))"
  have "(\<forall>(i, r) \<in> set (fst (fold (startTask eng ?terms) ids ([], []))). P r)
       \<and> (\<forall>(i, t) \<in> set (snd (fold (startTask eng ?terms) ids ([], []))). \<forall>r. t = Inr r \<longrightarrow> P r)"
    by (rule startTask_fold_inv[where P=P, OF assms(1) assms(3)]) simp_all
  then show ?thesis using False by (simp add: search_def Let_def split: prod.splits)
qed

text \<open>
  C2.  Every entry of the result map that is not visible has score 0.  This holds for
  the map as \<open>search\<close> returns it and after any of the suspended tasks have been resumed,
  in any order; an entry computed from the sub-scores is covered as well as the
  entry of an id that could not be resolved.
\<close>

theorem invisible_score_zero:
  assumes "set schedule \<subseteq> set (snd (search eng q ids))"
    and "(i, r) \<in> set (settleAll schedule (fst (search eng q ids)))"
    and "\<not> visible r"
  shows "score r = 0"
proof -
  let ?P = "\<lambda>r. \<not> visible r \<longrightarrow> score r = 0"
  have inv: "(\<forall>(i, r) \<in> set (fst (search eng q ids)). ?P r)
       \<and> (\<forall>(i, t) \<in> set (snd (search eng q ids)). \<forall>r. t = Inr r \<longrightarrow> ?P r)"
    by (rule search_inv) (auto simp: createEmptyResult_def dest: relevance_invisible_zero)
  then have "\<forall>(i, t) \<in> set schedule. \<forall>r. t = Inr r \<longrightarrow> ?P r"
    using assms(1) by blast
  with inv have "\<forall>(i, r) \<in> set (settleAll schedule (fst (search eng q ids))). ?P r"
    by (intro settleAll_inv) auto
  with assms(2,3) show ?thesis by blast
qed

theorem invisible_score_zero_witness:
  "(1, \<lparr>visible = False, score = 0, matchDetails = emptyMatchDetails\<rparr>)
     \<in> set (settleAll (snd (search exampleEngine ''zzz'' [7, 1]))
               (fst (search exampleEngine ''zzz'' [7, 1])))
   \<and> score \<lparr>visible = False, score = 0, matchDetails = emptyMatchDetails\<rparr> = 0"
proof -
  let ?r = "\<lparr>visible = False, score = 0, matchDetails = emptyMatchDetails\<rparr>"
  have 1: "set (snd (search exampleEngine ''zzz'' [7, 1]))
             \<subseteq> set (snd (search exampleEngine ''zzz'' [7, 1]))"
    by simp
  have 2: "(1, ?r) \<in> set (settleAll (snd (search exampleEngine ''zzz'' [7, 1]))
                            (fst (search exampleEngine ''zzz'' [7, 1])))"
    by (simp add: zzz_search settleAll_def settle_def)
  have 3: "\<not> visible ?r" by simp
  from 2 invisible_score_zero[OF 1 2 3] show ?thesis by simp
qed

subsection \<open>Independence of the order in which the tasks are resumed\<close>

lemma map_of_settleAll:
  assumes "\<forall>t \<in> set sched. snd t = F (fst t)"
  shows "map_of (settleAll sched res) k =
     (if k \<in> fst ` set sched then (case F k of Inl e \<Rightarrow> map_of res k | Inr r \<Rightarrow> Some r)
      else map_of res k)"
  using assms unfolding settleAll_def
proof (induction sched arbitrary: res)
  case Nil
  then show ?case by simp
next
  case (Cons t sched)
  have t: "snd t = F (fst t)" and rest: "\<forall>t \<in> set sched. snd t = F (fst t)"
    using Cons.prems by simp_all
  have step: "map_of (settle t res) =
      (case F (fst t) of Inl e \<Rightarrow> map_of res | Inr r \<Rightarrow> (map_of res)(fst t \<mapsto> r))"
    by (simp add: settle_def t update_conv' split: sum.splits)
  show ?case
    using Cons.IH[OF rest, of "settle t res"]
    by (cases "F (fst t)"; cases "F k") (auto simp: step)
qed

lemma pending_startTask_fold:
  "\<forall>t \<in> set (snd st). snd t = outcomeOf eng terms (fst t) \<Longrightarrow>
   \<forall>t \<in> set (snd (fold (startTask eng terms) ids st)). snd t = outcomeOf eng terms (fst t)"
proof (induction ids arbitrary: st)
  case Nil
  then show ?case by simp
next
  case (Cons a ids)
  have "\<forall>t \<in> set (snd (startTask eng terms a st)). snd t = outcomeOf eng terms (fst t)"
    using Cons.prems by (cases st) (auto simp: startTask_def outcomeOf_def split: option.splits)
  from Cons.IH[OF this] show ?case by simp
qed

lemma pending_search:
  "\<exists>F. \<forall>t \<in> set (snd (search eng q ids)). snd t = F (fst t)"
proof (cases "trim (toLowerCase q) = []")
  case True
  then show ?thesis by (simp add: search_def)
next
  case False
  let ?terms = "preprocessSearchTerms (trim (toLowerCase q))"
  have "\<forall>t \<in> set (snd (fold (startTask eng ?terms) ids ([], []))). snd t = outcomeOf eng ?terms (fst t)"
    by (rule pending_startTask_fold) simp
  then have "\<forall>t \<in> set (snd (search eng q ids)). snd t = outcomeOf eng ?terms (fst t)"
    using False by (simp add: search_def Let_def split: prod.splits)
  then show ?thesis by blast
qed

text \<open>
  C1.  \<open>search\<close> is a function of the query, the requested ids and the engine (records,
  weights, thresholds, embedding store), so two calls with the same inputs return the
  same map and leave the same tasks.  The order in which the suspended tasks are resumed
  is the one thing a run does not fix: whatever the two orders \<open>run1\<close> and \<open>run2\<close> are,
  the completed maps have the same keys and the same result at every key.
\<close>

theorem search_deterministic:
  assumes "mset run1 = mset (snd (search eng q ids))"
    and "mset run2 = mset (snd (search eng q ids))"
  shows "map_of (settleAll run1 (fst (search eng q ids)))
       = map_of (settleAll run2 (fst (search eng q ids)))"
proof -
  obtain F where F: "\<forall>t \<in> set (snd (search eng q ids)). snd t = F (fst t)"
    using pending_search by blast
  have s1: "set run1 = set (snd (search eng q ids))" and s2: "set run2 = set (snd (search eng q ids))"
    using assms by (metis set_mset_mset)+
  show ?thesis
  proof
    fix k
    show "map_of (settleAll run1 (fst (search eng q ids))) k
        = map_of (settleAll run2 (fst (search eng q ids))) k"
      using F s1 s2 by (simp add: map_of_settleAll[where F = F])
  qed
qed

theorem search_deterministic_witness:
  "map_of (settleAll (snd (search exampleEngine ''login 42'' [2, 7, 1]))
             (fst (search exampleEngine ''login 42'' [2, 7, 1])))
   = map_of (settleAll (rev (snd (search exampleEngine ''login 42'' [2, 7, 1])))
               (fst (search exampleEngine ''login 42'' [2, 7, 1])))"
  by (rule search_deterministic) simp_all


section \<open>The embedding index\<close>

lemma cosine_range:
  "0 \<le> calculateCosineSimilarity a b \<and> calculateCosineSimilarity a b \<le> 1"
  by (simp add: calculateCosineSimilarity_def Let_def)

lemma login_vector: "getSimilarityScore exampleVectors 1 [''Login''] = (Inr 1, [''login''])"
proof -
  have p: "preprocessText ''Login'' = ''login''" by code_simp
  show ?thesis
    by (simp add: getSimilarityScore_def hasDocument_def combineEmbeddings_def normalizeVector_def
        calculateCosineSimilarity_def sumSquares_def dotProduct_def p exampleVectors_def)
qed

text \<open>
  C7.  \<open>getSimilarityScore\<close> returns 0 and hands nothing to the encoder when the id has
  no stored vector or the term list is empty, whatever the state of the encoder.  When
  the id has a stored vector, the term list is not empty and the encoder is ready, it
  encodes each preprocessed term and returns a value in the unit interval; the stored
  vector need not have unit length for that.
\<close>

theorem getSimilarityScore_contract:
  "(\<not> hasDocument vs d \<or> terms = [] \<longrightarrow> getSimilarityScore vs d terms = (Inr 0, []))
   \<and> (hasDocument vs d \<and> terms \<noteq> [] \<and> encoder vs = Some enc \<longrightarrow>
        snd (getSimilarityScore vs d terms) = map preprocessText terms
        \<and> (\<exists>v. fst (getSimilarityScore vs d terms) = Inr v \<and> 0 \<le> v \<and> v \<le> 1))"
proof (intro conjI impI)
  assume "\<not> hasDocument vs d \<or> terms = []"
  then show "getSimilarityScore vs d terms = (Inr 0, [])"
    by (auto simp: getSimilarityScore_def)
next
  assume a: "hasDocument vs d \<and> terms \<noteq> [] \<and> encoder vs = Some enc"
  then obtain docVector where dv: "map_of (documentVectors vs) d = Some docVector"
    by (auto simp: hasDocument_def)
  from a show "snd (getSimilarityScore vs d terms) = map preprocessText terms"
    by (simp add: getSimilarityScore_def Let_def)
  show "\<exists>v. fst (getSimilarityScore vs d terms) = Inr v \<and> 0 \<le> v \<and> v \<le> 1"
  proof (cases "combineEmbeddings (map enc (map preprocessText terms))")
    case None
    with a dv show ?thesis by (simp add: getSimilarityScore_def Let_def)
  next
    case (Some c)
    with a dv show ?thesis by (simp add: getSimilarityScore_def Let_def cosine_range)
  qed
qed

theorem getSimilarityScore_contract_witness:
  "getSimilarityScore exampleVectors 9 [''Login''] = (Inr 0, [])
   \<and> getSimilarityScore exampleVectors 1 [] = (Inr 0, [])
   \<and> snd (getSimilarityScore exampleVectors 1 [''Login'']) = map preprocessText [''Login'']
   \<and> (\<exists>v. fst (getSimilarityScore exampleVectors 1 [''Login'']) = Inr v \<and> 0 \<le> v \<and> v \<le> 1)"
proof -
  have h9: "\<not> hasDocument exampleVectors 9" and h1: "hasDocument exampleVectors 1"
    by (simp_all add: hasDocument_def exampleVectors_def)
  have e: "encoder exampleVectors = Some (\<lambda>text. if text = ''zzz'' then [0, 1] else [1, 0])"
    by (simp add: exampleVectors_def)
  from getSimilarityScore_contract[of exampleVectors 9 "[''Login'']"] h9
       getSimilarityScore_contract[of exampleVectors 1 "[]"]
       getSimilarityScore_contract[of exampleVectors 1 "[''Login'']"] h1 e
  show ?thesis by simp
qed

lemma tie_search: "vectorSearch_search exampleVectors ''login'' 2 = Inr [(2, 1), (1, 1)]"
proof -
  have p: "preprocessText ''login'' = ''login''" by code_simp
  show ?thesis
    by (simp add: vectorSearch_search_def sliceFromStart_def sortByScoreDesc_def p exampleVectors_def
        calculateCosineSimilarity_def sumSquares_def dotProduct_def)
qed

text \<open>
  C8, as stated, fails.  The example store received the vector of id 2 before that of
  id 1, and both are equally similar to the query: the top-K query lists id 2 before
  id 1, so the tie is not broken by ascending id.
\<close>

theorem topK_tie_counterexample:
  "vectorSearch_search exampleVectors ''login'' 2 = Inr [(2, 1), (1, 1)]
   \<and> \<not> sorted_wrt (\<lambda>a b. snd b < snd a \<or> snd a = snd b \<and> fst a < fst b)
         [(2 :: int, 1 :: real), (1, 1)]"
  using tie_search by simp

text \<open>
  C8, amended.  With the encoder ready and \<open>k\<close> not negative, the top-K query returns at
  most \<open>k\<close> pairs in descending order of score, and pairs of equal score keep the order
  in which the store holds them (its insertion order): for every score \<open>c\<close>, the returned
  pairs of score \<open>c\<close> are an initial segment of the store's pairs of score \<open>c\<close>.
\<close>

theorem topK_descending_stable:
  assumes "encoder vs = Some enc" and "0 \<le> k"
  shows "\<exists>rs. vectorSearch_search vs query k = Inr rs
     \<and> length rs \<le> nat k
     \<and> sorted_wrt (\<lambda>a b. snd b \<le> snd a) rs
     \<and> (\<forall>c. prefix (filter (\<lambda>p. snd p = c) rs)
             (filter (\<lambda>p. snd p = c)
                (map (\<lambda>(docId, docVector).
                        (docId, calculateCosineSimilarity (enc (preprocessText query)) docVector))
                   (documentVectors vs))))"
proof -
  let ?scores = "map (\<lambda>(docId, docVector).
                        (docId, calculateCosineSimilarity (enc (preprocessText query)) docVector))
                   (documentVectors vs)"
  let ?rs = "take (nat k) (sortByScoreDesc ?scores)"
  have r: "vectorSearch_search vs query k = Inr ?rs"
    using assms by (simp add: vectorSearch_search_def sliceFromStart_def Let_def)
  have l: "length ?rs \<le> nat k" by simp
  have "sorted (map (\<lambda>p. - snd p) (sortByScoreDesc ?scores))"
    unfolding sortByScoreDesc_def by (rule sorted_sort_key)
  then have "sorted_wrt (\<lambda>a b. snd b \<le> snd a) (sortByScoreDesc ?scores)"
    by (simp add: sorted_map)
  then have s: "sorted_wrt (\<lambda>a b. snd b \<le> snd a) ?rs"
    by (rule sorted_wrt_take)
  have t: "prefix (filter (\<lambda>p. snd p = c) ?rs) (filter (\<lambda>p. snd p = c) ?scores)" for c
  proof -
    have "prefix (filter (\<lambda>p. snd p = c) ?rs) (filter (\<lambda>p. snd p = c) (sortByScoreDesc ?scores))"
      by (intro filter_mono_prefix take_is_prefix)
    moreover have "filter (\<lambda>p. snd p = c) (sortByScoreDesc ?scores) = filter (\<lambda>p. snd p = c) ?scores"
      using sort_key_stable[of "\<lambda>p. - snd p" "- c" ?scores]
      by (simp add: sortByScoreDesc_def)
    ultimately show ?thesis by simp
  qed
  from r l s t show ?thesis by blast
qed

theorem topK_descending_stable_witness:
  "\<exists>rs. vectorSearch_search exampleVectors ''login'' 1 = Inr rs
     \<and> length rs \<le> nat 1
     \<and> sorted_wrt (\<lambda>a b. snd b \<le> snd a) rs
     \<and> (\<forall>c. prefix (filter (\<lambda>p. snd p = c) rs)
             (filter (\<lambda>p. snd p = c)
                (map (\<lambda>(docId, docVector).
                        (docId, calculateCosineSimilarity
                                  ((\<lambda>text. if text = ''zzz'' then [0, 1] else [1, 0])
                                     (preprocessText ''login'')) docVector))
                   (documentVectors exampleVectors))))"
proof -
  have e: "encoder exampleVectors = Some (\<lambda>text. if text = ''zzz'' then [0, 1] else [1, 0])"
    by (simp add: exampleVectors_def)
  have k: "(0 :: int) \<le> 1" by simp
  show ?thesis by (rule topK_descending_stable[OF e k])
qed

section \<open>The ranking diagnostic\<close>










section \<open>The signal scorer\<close>

subsection \<open>Fuzzy matching\<close>

lemma bestMatch_fold_below:
  "\<forall>w \<in> set ws. stringSimilarity scorer t w \<le> fuzzySearchThreshold (config scorer) \<Longrightarrow>
   fold (bestMatchStep scorer t) ws acc = acc"
  by (induction ws arbitrary: acc) (auto simp: bestMatchStep_def Let_def split: prod.splits)

lemma bestMatch_fold_props:
  assumes "fold (bestMatchStep scorer t) ws (bw0, bs0) = (bw, bs)"
  shows "bs0 \<le> bs
    \<and> (\<forall>w \<in> set ws. fuzzySearchThreshold (config scorer) < stringSimilarity scorer t w
          \<longrightarrow> stringSimilarity scorer t w \<le> bs)
    \<and> ((bw, bs) = (bw0, bs0)
        \<or> (bw \<in> set ws \<and> bs = stringSimilarity scorer t bw \<and> fuzzySearchThreshold (config scorer) < bs))"
  using assms
proof (induction ws arbitrary: bw0 bs0)
  case Nil
  then show ?case by simp
next
  case (Cons x ws)
  obtain bw1 bs1 where s: "bestMatchStep scorer t x (bw0, bs0) = (bw1, bs1)"
    by (cases "bestMatchStep scorer t x (bw0, bs0)")
  have f: "fold (bestMatchStep scorer t) ws (bw1, bs1) = (bw, bs)"
    using Cons.prems s by simp
  note ih = Cons.IH[OF f]
  have s1: "bs0 \<le> bs1" 
    and s2: "fuzzySearchThreshold (config scorer) < stringSimilarity scorer t x \<longrightarrow> stringSimilarity scorer t x \<le> bs1"
    and s3: "(bw1, bs1) = (bw0, bs0) \<or> (bw1 = x \<and> bs1 = stringSimilarity scorer t x \<and> fuzzySearchThreshold (config scorer) < bs1)"
    using s by (auto simp: bestMatchStep_def Let_def split: if_splits)
  show ?case
  proof (intro conjI ballI impI)
    show "bs0 \<le> bs" using s1 ih by linarith
  next
    fix w assume "w \<in> set (x # ws)" "fuzzySearchThreshold (config scorer) < stringSimilarity scorer t w"
    then show "stringSimilarity scorer t w \<le> bs"
      using s2 ih by (cases "w = x") auto
  next
    show "(bw, bs) = (bw0, bs0) \<or> bw \<in> set (x # ws) \<and> bs = stringSimilarity scorer t bw \<and> fuzzySearchThreshold (config scorer) < bs"
      using s3 ih by auto
  qed
qed

lemma fuzzyTerm_threshold:
  assumes "0 \<le> fuzzySearchThreshold (config scorer)"
  shows "((\<forall>w \<in> set ws. stringSimilarity scorer t w \<le> fuzzySearchThreshold (config scorer))
            \<longrightarrow> fuzzyTerm scorer ws t (sc, md) = (sc, md))
     \<and> ((\<exists>w \<in> set ws. fuzzySearchThreshold (config scorer) < stringSimilarity scorer t w)
            \<longrightarrow> (\<exists>w \<in> set ws.
                   fuzzySearchThreshold (config scorer) < stringSimilarity scorer t w
                   \<and> (\<forall>w' \<in> set ws. stringSimilarity scorer t w' \<le> stringSimilarity scorer t w)
                   \<and> fuzzyTerm scorer ws t (sc, md)
                       = (sc + stringSimilarity scorer t w * fuzzyMatchWeight (config scorer),
                          md\<lparr>fuzzyMatches := fuzzyMatches md
                               @ [\<lparr>original = t, matched = w,
                                   fm_score = stringSimilarity scorer t w\<rparr>]\<rparr>)))"
proof (intro conjI impI)
  assume "\<forall>w \<in> set ws. stringSimilarity scorer t w \<le> fuzzySearchThreshold (config scorer)"
  then have "bestMatch scorer ws t = ([], 0)"
    unfolding bestMatch_def by (rule bestMatch_fold_below)
  then show "fuzzyTerm scorer ws t (sc, md) = (sc, md)"
    by (simp add: fuzzyTerm_def)
next
  assume ex: "\<exists>w \<in> set ws. fuzzySearchThreshold (config scorer) < stringSimilarity scorer t w"
  obtain bw bs where b: "bestMatch scorer ws t = (bw, bs)"
    by (cases "bestMatch scorer ws t")
  then have f: "fold (bestMatchStep scorer t) ws ([], 0) = (bw, bs)"
    by (simp add: bestMatch_def)
  note p = bestMatch_fold_props[OF f]
  from ex p assms have pos: "0 < bs" by fastforce
  with p have w: "bw \<in> set ws" "bs = stringSimilarity scorer t bw"
    "fuzzySearchThreshold (config scorer) < bs"
    by auto
  have best: "\<forall>w' \<in> set ws. stringSimilarity scorer t w' \<le> bs"
  proof
    fix w' assume "w' \<in> set ws"
    then show "stringSimilarity scorer t w' \<le> bs"
      using p w(3) by (cases "fuzzySearchThreshold (config scorer) < stringSimilarity scorer t w'") auto
  qed
  have "fuzzyTerm scorer ws t (sc, md)
      = (sc + bs * fuzzyMatchWeight (config scorer),
         md\<lparr>fuzzyMatches := fuzzyMatches md @ [\<lparr>original = t, matched = bw, fm_score = bs\<rparr>]\<rparr>)"
    using pos by (simp add: fuzzyTerm_def b)
  with w best show "\<exists>w \<in> set ws.
       fuzzySearchThreshold (config scorer) < stringSimilarity scorer t w
       \<and> (\<forall>w' \<in> set ws. stringSimilarity scorer t w' \<le> stringSimilarity scorer t w)
       \<and> fuzzyTerm scorer ws t (sc, md)
           = (sc + stringSimilarity scorer t w * fuzzyMatchWeight (config scorer),
              md\<lparr>fuzzyMatches := fuzzyMatches md
                   @ [\<lparr>original = t, matched = w, fm_score = stringSimilarity scorer t w\<rparr>]\<rparr>)"
    by (intro bexI[of _ bw]) auto
qed

lemma fuzzyTerm_hit:
  assumes "0 \<le> fuzzySearchThreshold (config scorer)"
  shows "\<exists>h. (case h of
            None \<Rightarrow> (\<forall>w \<in> set ws. stringSimilarity scorer t w \<le> fuzzySearchThreshold (config scorer))
          | Some (w, s) \<Rightarrow> w \<in> set ws \<and> s = stringSimilarity scorer t w
                \<and> fuzzySearchThreshold (config scorer) < s
                \<and> (\<forall>w' \<in> set ws. stringSimilarity scorer t w' \<le> s))
       \<and> fuzzyTerm scorer ws t (sc, md)
           = (sc + (case h of None \<Rightarrow> 0 | Some (w, s) \<Rightarrow> s * fuzzyMatchWeight (config scorer)),
              md\<lparr>fuzzyMatches := fuzzyMatches md
                   @ (case h of None \<Rightarrow> []
                      | Some (w, s) \<Rightarrow> [\<lparr>original = t, matched = w, fm_score = s\<rparr>])\<rparr>)"
proof (cases "\<exists>w \<in> set ws. fuzzySearchThreshold (config scorer) < stringSimilarity scorer t w")
  case False
  then have b: "\<forall>w \<in> set ws. stringSimilarity scorer t w \<le> fuzzySearchThreshold (config scorer)"
    by auto
  with fuzzyTerm_threshold[OF assms, of ws t sc md]
  have "fuzzyTerm scorer ws t (sc, md) = (sc, md)" by blast
  with b show ?thesis by (intro exI[of _ None]) simp
next
  case True
  with fuzzyTerm_threshold[OF assms, of ws t sc md]
  obtain w where w: "w \<in> set ws" "fuzzySearchThreshold (config scorer) < stringSimilarity scorer t w"
      "\<forall>w' \<in> set ws. stringSimilarity scorer t w' \<le> stringSimilarity scorer t w"
      "fuzzyTerm scorer ws t (sc, md)
         = (sc + stringSimilarity scorer t w * fuzzyMatchWeight (config scorer),
            md\<lparr>fuzzyMatches := fuzzyMatches md
                 @ [\<lparr>original = t, matched = w, fm_score = stringSimilarity scorer t w\<rparr>]\<rparr>)"
    by blast
  then show ?thesis by (intro exI[of _ "Some (w, stringSimilarity scorer t w)"]) simp
qed

lemma fuzzy_fold_hits:
  assumes "0 \<le> fuzzySearchThreshold (config scorer)"
  shows "\<exists>hits.
     list_all2 (\<lambda>t h. case h of
            None \<Rightarrow> (\<forall>w \<in> set ws. stringSimilarity scorer t w \<le> fuzzySearchThreshold (config scorer))
          | Some (w, s) \<Rightarrow> w \<in> set ws \<and> s = stringSimilarity scorer t w
                \<and> fuzzySearchThreshold (config scorer) < s
                \<and> (\<forall>w' \<in> set ws. stringSimilarity scorer t w' \<le> s)) terms hits
     \<and> fold (fuzzyTerm scorer ws) terms (sc, md)
         = (sc + sum_list (map (\<lambda>h. case h of None \<Rightarrow> 0
                                      | Some (w, s) \<Rightarrow> s * fuzzyMatchWeight (config scorer)) hits),
            md\<lparr>fuzzyMatches := fuzzyMatches md
                 @ concat (map2 (\<lambda>t h. case h of None \<Rightarrow> []
                                   | Some (w, s) \<Rightarrow> [\<lparr>original = t, matched = w, fm_score = s\<rparr>])
                             terms hits)\<rparr>)"
proof (induction terms arbitrary: sc md)
  case Nil
  show ?case by (intro exI[of _ "[]"]) simp
next
  case (Cons t terms)
  from fuzzyTerm_hit[OF assms, of ws t sc md] obtain h where
    h: "(case h of
            None \<Rightarrow> (\<forall>w \<in> set ws. stringSimilarity scorer t w \<le> fuzzySearchThreshold (config scorer))
          | Some (w, s) \<Rightarrow> w \<in> set ws \<and> s = stringSimilarity scorer t w
                \<and> fuzzySearchThreshold (config scorer) < s
                \<and> (\<forall>w' \<in> set ws. stringSimilarity scorer t w' \<le> s))"
    and s: "fuzzyTerm scorer ws t (sc, md)
           = (sc + (case h of None \<Rightarrow> 0 | Some (w, s) \<Rightarrow> s * fuzzyMatchWeight (config scorer)),
              md\<lparr>fuzzyMatches := fuzzyMatches md
                   @ (case h of None \<Rightarrow> []
                      | Some (w, s) \<Rightarrow> [\<lparr>original = t, matched = w, fm_score = s\<rparr>])\<rparr>)"
    by blast
  from Cons.IH[of "sc + (case h of None \<Rightarrow> 0 | Some (w, s) \<Rightarrow> s * fuzzyMatchWeight (config scorer))"
                  "md\<lparr>fuzzyMatches := fuzzyMatches md
                   @ (case h of None \<Rightarrow> []
                      | Some (w, s) \<Rightarrow> [\<lparr>original = t, matched = w, fm_score = s\<rparr>])\<rparr>"]
  obtain hits where hits: "list_all2 (\<lambda>t h. case h of
            None \<Rightarrow> (\<forall>w \<in> set ws. stringSimilarity scorer t w \<le> fuzzySearchThreshold (config scorer))
          | Some (w, s) \<Rightarrow> w \<in> set ws \<and> s = stringSimilarity scorer t w
                \<and> fuzzySearchThreshold (config scorer) < s
                \<and> (\<forall>w' \<in> set ws. stringSimilarity scorer t w' \<le> s)) terms hits"
    and f: "fold (fuzzyTerm scorer ws) terms (fuzzyTerm scorer ws t (sc, md))
         = (sc + (case h of None \<Rightarrow> 0 | Some (w, s) \<Rightarrow> s * fuzzyMatchWeight (config scorer))
               + sum_list (map (\<lambda>h. case h of None \<Rightarrow> 0
                                      | Some (w, s) \<Rightarrow> s * fuzzyMatchWeight (config scorer)) hits),
            md\<lparr>fuzzyMatches := fuzzyMatches md
                 @ (case h of None \<Rightarrow> []
                      | Some (w, s) \<Rightarrow> [\<lparr>original = t, matched = w, fm_score = s\<rparr>])
                 @ concat (map2 (\<lambda>t h. case h of None \<Rightarrow> []
                                   | Some (w, s) \<Rightarrow> [\<lparr>original = t, matched = w, fm_score = s\<rparr>])
                             terms hits)\<rparr>)"
    unfolding s by auto
  show ?case
    by (intro exI[of _ "h # hits"]) (use h hits f in \<open>simp add: add.assoc\<close>)
qed

text \<open>
  C6.  \<open>calculateFuzzyScore\<close>, for a threshold that is not negative (the configured one is
  0.7), over the content words \<open>tokenizeContent content\<close>.  Each query term has a hit or
  none.  It has none exactly when no content word is more similar to it than the
  threshold, a word at exactly the threshold included; otherwise its hit is one content
  word of the greatest similarity, which is strictly above the threshold.  The score is
  the sum, over the terms, of the hit's similarity times \<open>fuzzyMatchWeight\<close> (nothing for a
  term without a hit), capped at 2; the fuzzy evidence gains one entry per term with a
  hit, in the order of the terms, and nothing else of the evidence changes.
\<close>

theorem calculateFuzzyScore_threshold_strict:
  assumes "0 \<le> fuzzySearchThreshold (config scorer)"
  shows "\<exists>hits.
     list_all2 (\<lambda>t h. case h of
            None \<Rightarrow> (\<forall>w \<in> set (tokenizeContent content).
                        stringSimilarity scorer t w \<le> fuzzySearchThreshold (config scorer))
          | Some (w, s) \<Rightarrow> w \<in> set (tokenizeContent content) \<and> s = stringSimilarity scorer t w
                \<and> fuzzySearchThreshold (config scorer) < s
                \<and> (\<forall>w' \<in> set (tokenizeContent content). stringSimilarity scorer t w' \<le> s))
        searchTerms hits
     \<and> calculateFuzzyScore scorer content searchTerms md
         = (min (sum_list (map (\<lambda>h. case h of None \<Rightarrow> 0
                                      | Some (w, s) \<Rightarrow> s * fuzzyMatchWeight (config scorer)) hits)) 2,
            md\<lparr>fuzzyMatches := fuzzyMatches md
                 @ concat (map2 (\<lambda>t h. case h of None \<Rightarrow> []
                                   | Some (w, s) \<Rightarrow> [\<lparr>original = t, matched = w, fm_score = s\<rparr>])
                             searchTerms hits)\<rparr>)"
  using fuzzy_fold_hits[OF assms, of "tokenizeContent content" searchTerms 0 md]
  by (auto simp: calculateFuzzyScore_def Let_def)


theorem calculateFuzzyScore_threshold_strict_witness:
  "calculateFuzzyScore exampleScorer (getSearchableContent exampleIssue) [''logon'', ''login'']
       emptyMatchDetails
     = (0.7, emptyMatchDetails\<lparr>fuzzyMatches :=
               [\<lparr>original = ''login'', matched = ''login'', fm_score = 1\<rparr>]\<rparr>)"
proof -
  let ?ws = "[''login'', ''fails'', ''safari'', ''bug'']"
  let ?P = "\<lambda>t h. case h of
            None \<Rightarrow> (\<forall>w \<in> set ?ws. exampleSimilarity t w \<le> 0.7)
          | Some (w, s) \<Rightarrow> w \<in> set ?ws \<and> s = exampleSimilarity t w \<and> 0.7 < s
                \<and> (\<forall>w' \<in> set ?ws. exampleSimilarity t w' \<le> s)"
  have c: "config exampleScorer = defaultConfig" "stringSimilarity exampleScorer = exampleSimilarity"
    "fuzzySearchThreshold defaultConfig = 0.7" "fuzzyMatchWeight defaultConfig = 0.7"
    by (simp_all add: exampleScorer_def defaultConfig_def)
  have h: "0 \<le> fuzzySearchThreshold (config exampleScorer)"
    by (simp add: c)
  from calculateFuzzyScore_threshold_strict[OF h, of "getSearchableContent exampleIssue"
         "[''logon'', ''login'']" emptyMatchDetails]
  obtain hits where l: "list_all2 ?P [''logon'', ''login''] hits"
    and r: "calculateFuzzyScore exampleScorer (getSearchableContent exampleIssue) [''logon'', ''login'']
              emptyMatchDetails
         = (min (sum_list (map (\<lambda>h. case h of None \<Rightarrow> 0 | Some (w, s) \<Rightarrow> s * 0.7) hits)) 2,
            emptyMatchDetails\<lparr>fuzzyMatches := fuzzyMatches emptyMatchDetails
                 @ concat (map2 (\<lambda>t h. case h of None \<Rightarrow> []
                                   | Some (w, s) \<Rightarrow> [\<lparr>original = t, matched = w, fm_score = s\<rparr>])
                             [''logon'', ''login''] hits)\<rparr>)"
    unfolding example_content c by blast
  from l obtain h1 h2 where hs: "hits = [h1, h2]" and p1: "?P ''logon'' h1" and p2: "?P ''login'' h2"
    unfolding list_all2_Cons1 list_all2_Nil by blast
  have h1: "h1 = None"
  proof (cases h1)
    case (Some p)
    with p1 show ?thesis by (cases p) (auto simp: exampleSimilarity_def)
  qed simp
  have h2: "h2 = Some (''login'', 1)"
  proof (cases h2)
    case None
    with p2 show ?thesis by (simp add: exampleSimilarity_def)
  next
    case (Some p)
    with p2 show ?thesis by (cases p) (auto simp: exampleSimilarity_def)
  qed
  show ?thesis unfolding r hs h1 h2 by (simp add: emptyMatchDetails_def)
qed

subsection \<open>Metadata and the number match\<close>

lemma labelHit_props:
  assumes "labelHit term label (sc, md) = (sc', md')"
  shows "numberMatch md' = numberMatch md
     \<and> length (labelMatches md) \<le> length (labelMatches md')
     \<and> sc' - sc = 0.5 * (real (length (labelMatches md')) - real (length (labelMatches md)))"
  using assms by (auto simp: labelHit_def split: Label.splits option.splits if_splits)

lemma labelHit_fold_props:
  assumes "fold (labelHit term) ls (sc, md) = (sc', md')"
  shows "numberMatch md' = numberMatch md
     \<and> length (labelMatches md) \<le> length (labelMatches md')
     \<and> sc' - sc = 0.5 * (real (length (labelMatches md')) - real (length (labelMatches md)))"
  using assms
proof (induction ls arbitrary: sc md)
  case Nil
  then show ?case by simp
next
  case (Cons l ls)
  obtain sc1 md1 where s: "labelHit term l (sc, md) = (sc1, md1)"
    by (cases "labelHit term l (sc, md)")
  with Cons.prems have "fold (labelHit term) ls (sc1, md1) = (sc', md')" by simp
  from Cons.IH[OF this] labelHit_props[OF s] show ?case by (auto simp: algebra_simps)
qed

lemma labels_fold_props:
  assumes "fold (\<lambda>term. fold (labelHit term) ls) terms (sc, md) = (sc', md')"
  shows "numberMatch md' = numberMatch md
     \<and> length (labelMatches md) \<le> length (labelMatches md')
     \<and> sc' - sc = 0.5 * (real (length (labelMatches md')) - real (length (labelMatches md)))"
  using assms
proof (induction terms arbitrary: sc md)
  case Nil
  then show ?case by simp
next
  case (Cons t terms)
  obtain sc1 md1 where s: "fold (labelHit t) ls (sc, md) = (sc1, md1)"
    by (cases "fold (labelHit t) ls (sc, md)")
  with Cons.prems have "fold (\<lambda>term. fold (labelHit term) ls) terms (sc1, md1) = (sc', md')" by simp
  from Cons.IH[OF this] labelHit_fold_props[OF s] show ?case by (auto simp: algebra_simps)
qed

lemma meta_number_match:
  assumes "find isNumericTerm terms = Some t" and "t = numberToString (number issue)"
    and "calculateMetaScore scorer issue terms md = (sc', md')"
  shows "numberMatch md'
     \<and> sc' = 2 + 0.5 * (real (length (labelMatches md')) - real (length (labelMatches md)))"
proof (cases "labels issue")
  case None
  with assms show ?thesis by (auto simp: calculateMetaScore_def)
next
  case (Some ls)
  with assms have "fold (\<lambda>term. fold (labelHit term) ls) terms (2, md\<lparr>numberMatch := True\<rparr>) = (sc', md')"
    by (simp add: calculateMetaScore_def)
  from labels_fold_props[OF this] show ?thesis by (auto simp: field_simps)
qed

lemma bodyTerms_total:
  "\<forall>u \<in> set terms. re u \<noteq> None \<Longrightarrow> \<exists>res. bodyTerms re bdy terms acc = Inr res"
proof (induction terms arbitrary: acc)
  case Nil
  then show ?case by simp
next
  case (Cons u terms)
  obtain sc md where acc: "acc = (sc, md)" by (cases acc)
  from Cons.prems obtain cnt where c: "re u = Some cnt" by auto
  from Cons.prems have "\<forall>u \<in> set terms. re u \<noteq> None" by simp
  from Cons.IH[OF this] show ?case
    by (simp add: acc c Let_def split: prod.splits)
qed

lemma bodyTerms_syntax_error:
  "u \<in> set terms \<Longrightarrow> re u = None \<Longrightarrow> bodyTerms re bdy terms acc = Inl SyntaxError"
proof (induction terms arbitrary: acc)
  case Nil
  then show ?case by simp
next
  case (Cons v terms)
  obtain sc md where acc: "acc = (sc, md)" by (cases acc)
  show ?case
  proof (cases "re v")
    case None
    then show ?thesis by (simp add: acc)
  next
    case (Some cnt)
    with Cons.prems have "u \<in> set terms" by auto
    from Cons.IH[OF this Cons.prems(2)] show ?thesis
      by (simp add: acc Some Let_def split: prod.splits)
  qed
qed

lemma similarity_total:
  "encoder vs \<noteq> None \<or> \<not> hasDocument vs d \<Longrightarrow> \<exists>v. fst (getSimilarityScore vs d terms) = Inr v"
  by (auto simp: getSimilarityScore_def hasDocument_def Let_def split: option.splits)

lemma numbered_unmatched:
  "calculateIssueRelevance exampleEngine numberedIssue [''7'', ''42'']
     = Inr \<lparr>visible = False, score = 0, matchDetails = emptyMatchDetails\<rparr>"
proof -
  have i: "issue_id numberedIssue = 3" by (simp add: numberedIssue_def)
  have c: "tokenizeContent (getSearchableContent numberedIssue) = [''crash'', ''report'']"
    by code_simp
  have n: "numberToString 42 = ''42''" by code_simp
  have l: "toLowerCase (title numberedIssue) = ''crash report''" by code_simp
  have t: "calculateTitleScore exampleScorer numberedIssue [''7'', ''42''] emptyMatchDetails
             = (0, emptyMatchDetails)"
    by (simp add: calculateTitleScore_def l titleTerm_def startsWith_def)
  have b: "calculateBodyScore exampleScorer numberedIssue [''7'', ''42''] emptyMatchDetails
             = Inr (0, emptyMatchDetails)"
    by (simp add: calculateBodyScore_def codeBlockBonus_def codeBlocks.simps string_defs
          numberedIssue_def exampleScorer_def exampleRegExp_def)
  have f: "calculateFuzzyScore exampleScorer (getSearchableContent numberedIssue) [''7'', ''42'']
             emptyMatchDetails = (0, emptyMatchDetails)"
    by (simp add: calculateFuzzyScore_def c fuzzyTerm_def bestMatch_def bestMatchStep_def
          exampleScorer_def exampleSimilarity_def defaultConfig_def)
  have m: "calculateMetaScore exampleScorer numberedIssue [''7'', ''42''] emptyMatchDetails
             = (0, emptyMatchDetails)"
    by (simp add: calculateMetaScore_def n numberedIssue_def isNumericTerm_def isDigit_def)
  have v: "getSimilarityScore exampleVectors 3 [''7'', ''42''] = (Inr 0, [])"
    by (simp add: getSimilarityScore_def hasDocument_def exampleVectors_def)
  show ?thesis
    by (simp add: calculateIssueRelevance_def example_engine_parts i t b f m v)
       (simp add: emptyMatchDetails_def)
qed

text \<open>
  C5, as stated, fails.  The record has number 42 and the query terms are \<open>7\<close> and \<open>42\<close>:
  the term \<open>42\<close> is purely numeric and equals the number as a string, but the scorer
  compares only the first numeric term, \<open>7\<close>.  It neither sets the flag nor adds 2, and
  with no other signal the record's result is not visible.
\<close>

theorem number_match_counterexample:
  "isNumericTerm ''42'' \<and> ''42'' \<in> set [''7'', ''42'']
   \<and> numberToString (number numberedIssue) = ''42''
   \<and> fst (calculateMetaScore exampleScorer numberedIssue [''7'', ''42''] emptyMatchDetails) = 0
   \<and> \<not> numberMatch (snd (calculateMetaScore exampleScorer numberedIssue [''7'', ''42''] emptyMatchDetails))
   \<and> calculateIssueRelevance exampleEngine numberedIssue [''7'', ''42'']
        = Inr \<lparr>visible = False, score = 0, matchDetails = emptyMatchDetails\<rparr>"
proof -
  have n: "numberToString 42 = ''42''" by code_simp
  have m: "calculateMetaScore exampleScorer numberedIssue [''7'', ''42''] emptyMatchDetails
             = (0, emptyMatchDetails)"
    by (simp add: calculateMetaScore_def n numberedIssue_def isNumericTerm_def isDigit_def)
  have "isNumericTerm ''42''" by (simp add: isNumericTerm_def isDigit_def)
  moreover have "numberToString (number numberedIssue) = ''42''"
    by (simp add: numberedIssue_def n)
  moreover have "\<not> numberMatch emptyMatchDetails" by (simp add: emptyMatchDetails_def)
  ultimately show ?thesis using m numbered_unmatched by simp
qed

text \<open>
  C5, amended.  When the first purely numeric query term equals the record's number
  rendered as a string, metadata scoring sets the number-match flag and its score is 2
  plus 0.5 for each label match it records.  Every result the relevance computation
  yields for the record is then visible and carries the flag, whatever the other
  signals give; and the computation does yield a result when every term is accepted as
  a regular expression and the encoder is ready or the record has no stored vector.
\<close>

theorem number_match_first_numeric_term:
  assumes "find isNumericTerm terms = Some t" and "t = numberToString (number issue)"
  shows "numberMatch (snd (calculateMetaScore scorer issue terms md))
     \<and> fst (calculateMetaScore scorer issue terms md)
         = 2 + 0.5 * (real (length (labelMatches (snd (calculateMetaScore scorer issue terms md))))
                      - real (length (labelMatches md)))
     \<and> (\<forall>r. calculateIssueRelevance eng issue terms = Inr r
            \<longrightarrow> visible r \<and> numberMatch (matchDetails r))
     \<and> ((\<forall>u \<in> set terms. regExp (searchScorer eng) u \<noteq> None)
          \<and> (encoder (vectorSearch eng) \<noteq> None \<or> \<not> hasDocument (vectorSearch eng) (issue_id issue))
         \<longrightarrow> (\<exists>r. calculateIssueRelevance eng issue terms = Inr r))"
proof -
  obtain sc' md' where m: "calculateMetaScore scorer issue terms md = (sc', md')"
    by (cases "calculateMetaScore scorer issue terms md")
  from meta_number_match[OF assms m]
  have meta: "numberMatch (snd (calculateMetaScore scorer issue terms md))
     \<and> fst (calculateMetaScore scorer issue terms md)
         = 2 + 0.5 * (real (length (labelMatches (snd (calculateMetaScore scorer issue terms md))))
                      - real (length (labelMatches md)))"
    by (simp add: m)
  have nm: "numberMatch (snd (calculateMetaScore (searchScorer eng) issue terms md3))" for md3
    using meta_number_match[OF assms, of "searchScorer eng" md3]
    by (cases "calculateMetaScore (searchScorer eng) issue terms md3") simp
  have vis: "visible r \<and> numberMatch (matchDetails r)"
    if r: "calculateIssueRelevance eng issue terms = Inr r" for r
  proof -
    obtain s1 md1 where t: "calculateTitleScore (searchScorer eng) issue terms emptyMatchDetails = (s1, md1)"
      by (cases "calculateTitleScore (searchScorer eng) issue terms emptyMatchDetails")
    from r t obtain s2 md2 where bs: "calculateBodyScore (searchScorer eng) issue terms md1 = Inr (s2, md2)"
      by (auto simp: calculateIssueRelevance_def Let_def split: sum.splits)
    obtain s3 md3 where fz: "calculateFuzzyScore (searchScorer eng) (getSearchableContent issue) terms md2 = (s3, md3)"
      by (cases "calculateFuzzyScore (searchScorer eng) (getSearchableContent issue) terms md2")
    obtain s4 md4 where mt: "calculateMetaScore (searchScorer eng) issue terms md3 = (s4, md4)"
      by (cases "calculateMetaScore (searchScorer eng) issue terms md3")
    have n4: "numberMatch md4" using nm[of md3] mt by simp
    from r show ?thesis
      by (auto simp: calculateIssueRelevance_def Let_def t bs fz mt n4 split: sum.splits)
  qed
  have tot: "\<exists>r. calculateIssueRelevance eng issue terms = Inr r"
    if a: "(\<forall>u \<in> set terms. regExp (searchScorer eng) u \<noteq> None)
          \<and> (encoder (vectorSearch eng) \<noteq> None \<or> \<not> hasDocument (vectorSearch eng) (issue_id issue))"
  proof -
    from a have b: "\<exists>res. bodyTerms (regExp (searchScorer eng)) bdy terms acc = Inr res" for bdy acc
      by (intro bodyTerms_total) simp
    have b': "\<exists>res. calculateBodyScore (searchScorer eng) issue terms md1 = Inr res" for md1
      using b[of "toLowerCase (case body issue of None \<Rightarrow> [] | Some b \<Rightarrow> b)" "(0, md1)"]
      by (auto simp: calculateBodyScore_def Let_def split: sum.splits)
    from a have v: "\<exists>v. fst (getSimilarityScore (vectorSearch eng) (issue_id issue) terms) = Inr v"
      by (intro similarity_total) simp
    obtain s1 md1 where t: "calculateTitleScore (searchScorer eng) issue terms emptyMatchDetails = (s1, md1)"
      by (cases "calculateTitleScore (searchScorer eng) issue terms emptyMatchDetails")
    from b'[of md1] obtain s2 md2 where bs: "calculateBodyScore (searchScorer eng) issue terms md1 = Inr (s2, md2)"
      by fastforce
    from v obtain sv where sv: "fst (getSimilarityScore (vectorSearch eng) (issue_id issue) terms) = Inr sv"
      by blast
    show ?thesis
      by (simp add: calculateIssueRelevance_def Let_def t bs sv split: prod.splits)
  qed
  from meta vis tot show ?thesis by blast
qed

theorem number_match_first_numeric_term_witness:
  "numberMatch (snd (calculateMetaScore exampleScorer numberedIssue [''42''] emptyMatchDetails))
   \<and> fst (calculateMetaScore exampleScorer numberedIssue [''42''] emptyMatchDetails)
       = 2 + 0.5 * (real (length (labelMatches
                        (snd (calculateMetaScore exampleScorer numberedIssue [''42''] emptyMatchDetails))))
                    - real (length (labelMatches emptyMatchDetails)))
   \<and> (\<exists>r. calculateIssueRelevance exampleEngine numberedIssue [''42''] = Inr r
          \<and> visible r \<and> numberMatch (matchDetails r))"
proof -
  have f: "find isNumericTerm [''42''] = Some ''42''"
    by (simp add: isNumericTerm_def isDigit_def)
  have n: "''42'' = numberToString (number numberedIssue)" by code_simp
  have r: "\<forall>u \<in> set [''42'']. regExp (searchScorer exampleEngine) u \<noteq> None"
    by (simp add: example_engine_parts exampleScorer_def exampleRegExp_def isWordChar_def)
  have e: "encoder (vectorSearch exampleEngine) \<noteq> None"
    by (simp add: example_engine_parts exampleVectors_def)
  from number_match_first_numeric_term[OF f n, of exampleScorer emptyMatchDetails exampleEngine] r e
  show ?thesis by blast
qed

subsection \<open>The body scorer and the regular expression of a term\<close>

lemma body_score_syntax_error:
  assumes "u \<in> set terms" and "regExp scorer u = None"
  shows "calculateBodyScore scorer issue terms md = Inl SyntaxError"
  using bodyTerms_syntax_error[where re = "regExp scorer", OF assms]
  by (simp add: calculateBodyScore_def Let_def)

text \<open>
  C4 does not hold of the code.  The body scorer builds a regular expression from each
  query term as it is.  For the query \<open>(\<close> the constructor throws a syntax error: the
  body scorer raises, the relevance computation of the record fails with it, and the
  task \<open>search\<close> leaves for the record delivers the error and never a result.  The
  title, fuzzy and metadata scorers use plain substring tests and cannot raise.
\<close>

theorem body_score_raises_on_paren:
  "calculateBodyScore exampleScorer exampleIssue [''(''] emptyMatchDetails = Inl SyntaxError
   \<and> calculateIssueRelevance exampleEngine exampleIssue [''(''] = Inl SyntaxError
   \<and> search exampleEngine ''('' [1] = ([], [(1, Inl SyntaxError)])"
proof -
  have re: "regExp exampleScorer ''('' = None"
    by (simp add: exampleScorer_def exampleRegExp_def isWordChar_def)
  have b: "calculateBodyScore exampleScorer exampleIssue [''(''] md = Inl SyntaxError" for md
    by (rule body_score_syntax_error[OF _ re]) simp
  have r: "calculateIssueRelevance exampleEngine exampleIssue [''(''] = Inl SyntaxError"
    by (simp add: calculateIssueRelevance_def example_engine_parts b split: prod.splits)
  have t: "trim (toLowerCase ''('') = ''(''" by code_simp
  have p: "preprocessSearchTerms ''('' = [''('']" by code_simp
  have s: "search exampleEngine ''('' [1] = ([], [(1, Inl SyntaxError)])"
    by (simp add: search_def t p startTask_def example_engine_parts r)
  from b r s show ?thesis by simp
qed

end
